theory Spec2Isabelle
  imports Complex_Main "HOL-Library.Multiset"
begin

section \<open>Strings\<close>

text \<open>
  A JavaScript string is a sequence of UTF-16 code units. The development works with the
  code units U+0000 to U+00FF (Basic Latin and Latin-1 Supplement), one \<^typ>\<open>char\<close> each;
  every key of the two coordinate tables lies in this range. On it
  \<^verbatim>\<open>String.prototype.toLowerCase\<close> maps unit by unit: A to Z and the capital letters
  U+00C0 to U+00DE (the multiplication sign U+00D7 apart) move up by 32, everything else
  stays.
\<close>

definition lowerChar :: "char \<Rightarrow> char" where
  "lowerChar c =
     (let n = (of_char c :: nat)
      in if (65 \<le> n \<and> n \<le> 90) \<or> (192 \<le> n \<and> n \<le> 222 \<and> n \<noteq> 215)
         then char_of (n + 32) else c)"

definition toLowerCase :: "string \<Rightarrow> string" where
  "toLowerCase s = map lowerChar s"

text \<open>\<^verbatim>\<open>s.startsWith(p)\<close> and \<^verbatim>\<open>s.includes(sub)\<close>: \<open>sub\<close> occurs in \<open>s\<close> as a
  contiguous run of code units.\<close>

fun startsWith :: "string \<Rightarrow> string \<Rightarrow> bool" where
  "startsWith s [] = True"
| "startsWith [] (c # p) = False"
| "startsWith (d # s) (c # p) = (d = c \<and> startsWith s p)"

fun str_includes :: "string \<Rightarrow> string \<Rightarrow> bool" where
  "str_includes [] sub = (sub = [])"
| "str_includes (d # s) sub = (startsWith (d # s) sub \<or> str_includes s sub)"

section \<open>Race map: circuit coordinates (app/components/RaceMap.tsx)\<close>

text \<open>The interface \<^verbatim>\<open>RaceInfo\<close>; its field \<^verbatim>\<open>round\<close> is \<open>round_no\<close> here, as
  \<open>round\<close> is a function of the library.\<close>

record RaceInfo =
  raceId :: int
  label :: string
  name :: string
  circuit :: string
  location :: string
  country :: string
  round_no :: int
  date :: string
  year :: int

type_synonym coords = "real \<times> real"

text \<open>The two object literals, as association lists in the order of their properties
  (the order \<^verbatim>\<open>Object.entries\<close> enumerates them in: no key is an array index).\<close>

definition CIRCUIT_COORDINATES :: "(string \<times> coords) list" where
  "CIRCUIT_COORDINATES = [
     (''Bahrain International Circuit'', (26.0325, 50.510556)),
     (''Bahrain'', (26.0325, 50.510556)),
     (''Sakhir'', (26.0325, 50.510556)),
     (''Jeddah Corniche Circuit'', (21.6319, 39.1044)),
     (''Saudi Arabia'', (21.6319, 39.1044)),
     (''Jeddah'', (21.6319, 39.1044)),
     (''Albert Park Circuit'', (- 37.849722, 144.968333)),
     (''Australia'', (- 37.849722, 144.968333)),
     (''Melbourne'', (- 37.849722, 144.968333)),
     (''Shanghai International Circuit'', (31.3389, 121.2200)),
     (''China'', (31.3389, 121.2200)),
     (''Shanghai'', (31.3389, 121.2200)),
     (''Suzuka International Racing Course'', (34.843056, 136.540556)),
     (''Japan'', (34.843056, 136.540556)),
     (''Suzuka'', (34.843056, 136.540556)),
     (''Miami International Autodrome'', (25.9581, - 80.2389)),
     (''Miami'', (25.9581, - 80.2389)),
     (''Autodromo Enzo e Dino Ferrari'', (44.3439, 11.7167)),
     (''Imola'', (44.3439, 11.7167)),
     (''Emilia Romagna'', (44.3439, 11.7167)),
     (''Circuit de Monaco'', (43.734722, 7.420556)),
     (''Monaco'', (43.734722, 7.420556)),
     (''Circuit de Barcelona-Catalunya'', (41.57, 2.261111)),
     (''Spain'', (41.57, 2.261111)),
     (''Barcelona'', (41.57, 2.261111)),
     (''Catalunya'', (41.57, 2.261111)),
     (''Circuit Gilles-Villeneuve'', (45.505833, - 73.526667)),
     (''Canada'', (45.505833, - 73.526667)),
     (''Montreal'', (45.505833, - 73.526667)),
     (''Red Bull Ring'', (47.2197, 14.7647)),
     (''Austria'', (47.2197, 14.7647)),
     (''Spielberg'', (47.2197, 14.7647)),
     (''Silverstone Circuit'', (52.071, - 1.016)),
     (''United Kingdom'', (52.071, - 1.016)),
     (''Silverstone'', (52.071, - 1.016)),
     (''Great Britain'', (52.071, - 1.016)),
     (''Hungaroring'', (47.578889, 19.248611)),
     (''Hungary'', (47.578889, 19.248611)),
     (''Budapest'', (47.578889, 19.248611)),
     (''Circuit de Spa-Francorchamps'', (50.437222, 5.971389)),
     (''Belgium'', (50.437222, 5.971389)),
     (''Spa'', (50.437222, 5.971389)),
     (''Spa-Francorchamps'', (50.437222, 5.971389)),
     (''Circuit Zandvoort'', (52.3888, 4.5409)),
     (''Netherlands'', (52.3888, 4.5409)),
     (''Zandvoort'', (52.3888, 4.5409)),
     (''Dutch'', (52.3888, 4.5409)),
     (''Autodromo Nazionale Monza'', (45.620556, 9.289444)),
     (''Monza'', (45.620556, 9.289444)),
     (''Italy (Monza)'', (45.620556, 9.289444)),
     (''Baku City Circuit'', (40.3725, 49.8533)),
     (''Azerbaijan'', (40.3725, 49.8533)),
     (''Baku'', (40.3725, 49.8533)),
     (''Marina Bay Street Circuit'', (1.291403, 103.864147)),
     (''Singapore'', (1.291403, 103.864147)),
     (''Marina Bay'', (1.291403, 103.864147)),
     (''Circuit of the Americas'', (30.1328, - 97.6411)),
     (''COTA'', (30.1328, - 97.6411)),
     (''Austin'', (30.1328, - 97.6411)),
     (''Texas'', (30.1328, - 97.6411)),
     (''Las Vegas Strip Circuit'', (36.1017, - 115.1605)),
     (''Las Vegas'', (36.1017, - 115.1605)),
     (''Vegas'', (36.1017, - 115.1605)),
     (''Nevada'', (36.1017, - 115.1605)),
     (''Aut'' @ [CHR 0xF3] @ ''dromo Hermanos Rodr'' @ [CHR 0xED] @ ''guez'', (19.4042, - 99.0907)),
     (''Mexico'', (19.4042, - 99.0907)),
     (''Mexico City'', (19.4042, - 99.0907)),
     (''Aut'' @ [CHR 0xF3] @ ''dromo Jos'' @ [CHR 0xE9] @ '' Carlos Pace'', (- 23.703611, - 46.699722)),
     (''Brazil'', (- 23.703611, - 46.699722)),
     (''S'' @ [CHR 0xE3] @ ''o Paulo'', (- 23.703611, - 46.699722)),
     (''Interlagos'', (- 23.703611, - 46.699722)),
     (''Lusail International Circuit'', (25.4901, 51.4542)),
     (''Qatar'', (25.4901, 51.4542)),
     (''Lusail'', (25.4901, 51.4542)),
     (''Yas Marina Circuit'', (24.467222, 54.603056)),
     (''Abu Dhabi'', (24.467222, 54.603056)),
     (''Yas Marina'', (24.467222, 54.603056)),
     (''United Arab Emirates'', (24.467222, 54.603056))]"

definition COUNTRY_COORDINATES :: "(string \<times> coords) list" where
  "COUNTRY_COORDINATES = [
     (''Bahrain'', (26.0325, 50.510556)),
     (''Saudi Arabia'', (21.6319, 39.1044)),
     (''Australia'', (- 37.849722, 144.968333)),
     (''China'', (31.3389, 121.2200)),
     (''Japan'', (34.843056, 136.540556)),
     (''United States'', (30.1328, - 97.6411)),
     (''Italy'', (44.3439, 11.7167)),
     (''Monaco'', (43.734722, 7.420556)),
     (''Spain'', (41.57, 2.261111)),
     (''Canada'', (45.505833, - 73.526667)),
     (''Austria'', (47.2197, 14.7647)),
     (''United Kingdom'', (52.071, - 1.016)),
     (''Hungary'', (47.578889, 19.248611)),
     (''Belgium'', (50.437222, 5.971389)),
     (''Netherlands'', (52.3888, 4.5409)),
     (''Azerbaijan'', (40.3725, 49.8533)),
     (''Singapore'', (1.291403, 103.864147)),
     (''Mexico'', (19.4042, - 99.0907)),
     (''Brazil'', (- 23.703611, - 46.699722)),
     (''Qatar'', (25.4901, 51.4542)),
     (''United Arab Emirates'', (24.467222, 54.603056))]"


text \<open>
  A property read \<^verbatim>\<open>obj[key]\<close> on an object literal looks at the object's own
  properties first and then at those it inherits from \<^verbatim>\<open>Object.prototype\<close>. The
  inherited ones are functions (and, for \<^verbatim>\<open>__proto__\<close>, the prototype object
  itself): truthy values that are not coordinate pairs.
\<close>

datatype jsvalue = Coords coords | Inherited string

definition objectPrototypeKeys :: "string list" where
  "objectPrototypeKeys =
     [''constructor'', ''hasOwnProperty'', ''isPrototypeOf'', ''propertyIsEnumerable'',
      ''toLocaleString'', ''toString'', ''valueOf'', ''__proto__'',
      ''__defineGetter__'', ''__defineSetter__'', ''__lookupGetter__'', ''__lookupSetter__'']"

text \<open>\<open>None\<close> stands for \<^verbatim>\<open>undefined\<close>.\<close>

definition getProperty :: "(string \<times> coords) list \<Rightarrow> string \<Rightarrow> jsvalue option" where
  "getProperty obj key =
     (case map_of obj key of
        Some c \<Rightarrow> Some (Coords c)
      | None \<Rightarrow> if key \<in> set objectPrototypeKeys then Some (Inherited key) else None)"

text \<open>The two loops of \<^verbatim>\<open>findKey\<close>: the exact match and the partial match, both on
  lower-cased strings, both returning at the first entry that matches.\<close>

fun findExact :: "string \<Rightarrow> (string \<times> coords) list \<Rightarrow> coords option" where
  "findExact lowerSearch [] = None"
| "findExact lowerSearch ((key, c) # rest) =
     (if toLowerCase key = lowerSearch then Some c else findExact lowerSearch rest)"

fun findPartial :: "string \<Rightarrow> (string \<times> coords) list \<Rightarrow> coords option" where
  "findPartial lowerSearch [] = None"
| "findPartial lowerSearch ((key, c) # rest) =
     (let lowerKey = toLowerCase key
      in if str_includes lowerSearch lowerKey \<or> str_includes lowerKey lowerSearch
         then Some c else findPartial lowerSearch rest)"

text \<open>\<^verbatim>\<open>!searchValue\<close> holds of the empty string alone; \<open>None\<close> stands for
  \<^verbatim>\<open>null\<close>.\<close>

definition findKey :: "string \<Rightarrow> (string \<times> coords) list \<Rightarrow> coords option" where
  "findKey searchValue mapping =
     (if searchValue = [] then None
      else let lowerSearch = toLowerCase searchValue
           in case findExact lowerSearch mapping of
                Some c \<Rightarrow> Some c
              | None \<Rightarrow> findPartial lowerSearch mapping)"

definition getRaceCoordinates :: "RaceInfo \<Rightarrow> jsvalue" where
  "getRaceCoordinates race =
     (case findKey (circuit race) CIRCUIT_COORDINATES of
        Some circuitMatch \<Rightarrow> Coords circuitMatch
      | None \<Rightarrow>
     (case findKey (location race) CIRCUIT_COORDINATES of
        Some locationMatch \<Rightarrow> Coords locationMatch
      | None \<Rightarrow>
     (case getProperty COUNTRY_COORDINATES (country race) of
        Some v \<Rightarrow> v
      | None \<Rightarrow>
     (case findKey (country race) COUNTRY_COORDINATES of
        Some countryMatch \<Rightarrow> Coords countryMatch
      | None \<Rightarrow> Coords (20, 0)))))"

text \<open>
  The two ways in which a string matches a key of a table, in the words of the
  specification: it equals the key when case is ignored; or it contains the key, or the
  key contains it, when case is ignored.
\<close>

definition lowerKeys :: "(string \<times> coords) list \<Rightarrow> string list" where
  "lowerKeys mapping = map (\<lambda>(key, c). toLowerCase key) mapping"

definition matchesExactly :: "string \<Rightarrow> (string \<times> coords) list \<Rightarrow> bool" where
  "matchesExactly s mapping = (toLowerCase s \<in> set (lowerKeys mapping))"

definition matchesPartially :: "string \<Rightarrow> (string \<times> coords) list \<Rightarrow> bool" where
  "matchesPartially s mapping =
     list_ex (\<lambda>k. str_includes (toLowerCase s) k \<or> str_includes k (toLowerCase s))
       (lowerKeys mapping)"

section \<open>Display names (\<^verbatim>\<open>formatDriverName\<close> of the image utilities)\<close>

text \<open>
  \<^verbatim>\<open>name.replace(/_/g, ' ').replace(/\b\w/g, (l) => l.toUpperCase())\<close>.
  The class \<^verbatim>\<open>\w\<close> is \<^verbatim>\<open>[A-Za-z0-9_]\<close>. The pattern \<^verbatim>\<open>\b\w\<close> matches a word
  character whose left neighbour is no word character (or that starts the string); the
  global replace scans the string once, and the matches, one character each, never
  overlap. \<open>capitalizeWords\<close> is that scan; its flag says whether the character just
  passed is a word character. The callback only ever receives a character of \<^verbatim>\<open>\w\<close>,
  on which \<^verbatim>\<open>toUpperCase\<close> turns a to z into A to Z and keeps the rest.
\<close>

definition isWordChar :: "char \<Rightarrow> bool" where
  "isWordChar c =
     (let n = (of_char c :: nat)
      in (97 \<le> n \<and> n \<le> 122) \<or> (65 \<le> n \<and> n \<le> 90) \<or> (48 \<le> n \<and> n \<le> 57) \<or> n = 95)"

definition upperWordChar :: "char \<Rightarrow> char" where
  "upperWordChar c =
     (let n = (of_char c :: nat)
      in if 97 \<le> n \<and> n \<le> 122 then char_of (n - 32) else c)"

definition replaceUnderscores :: "string \<Rightarrow> string" where
  "replaceUnderscores s = map (\<lambda>c. if c = CHR ''_'' then CHR '' '' else c) s"

fun capitalizeWords :: "bool \<Rightarrow> string \<Rightarrow> string" where
  "capitalizeWords prevWord [] = []"
| "capitalizeWords prevWord (c # cs) =
     (if isWordChar c \<and> \<not> prevWord then upperWordChar c else c)
       # capitalizeWords (isWordChar c) cs"

definition formatDriverName :: "string \<Rightarrow> string" where
  "formatDriverName nm = capitalizeWords False (replaceUnderscores nm)"

text \<open>
  The specification's \<^verbatim>\<open>formatDisplayName\<close>, in its own words: it replaces underscores
  with spaces and title-cases each word. The words are what the spaces separate; a
  word is title-cased by upper-casing its first character and lower-casing the others.
  On the code units at hand \<^verbatim>\<open>toUpperCase\<close> moves a to z and the small letters U+00E0
  to U+00FE (the division sign U+00F7 apart) down by 32; the three small letters whose
  capital is no single code unit of the range (U+00B5, U+00DF, U+00FF) are kept.
\<close>

definition upperChar :: "char \<Rightarrow> char" where
  "upperChar c =
     (let n = (of_char c :: nat)
      in if (97 \<le> n \<and> n \<le> 122) \<or> (224 \<le> n \<and> n \<le> 254 \<and> n \<noteq> 247)
         then char_of (n - 32) else c)"

fun titleCaseWords :: "bool \<Rightarrow> string \<Rightarrow> string" where
  "titleCaseWords inWord [] = []"
| "titleCaseWords inWord (c # cs) =
     (if c = CHR '' '' then c # titleCaseWords False cs
      else (if inWord then lowerChar c else upperChar c) # titleCaseWords True cs)"

definition formatDisplayName :: "string \<Rightarrow> string" where
  "formatDisplayName slug = titleCaseWords False (replaceUnderscores slug)"

text \<open>The characters of a driver slug as the service sends it: the letters a to z and
  the underscore; the space that replaces the underscore is admitted too.\<close>

definition isSlugChar :: "char \<Rightarrow> bool" where
  "isSlugChar c =
     (let n = (of_char c :: nat) in (97 \<le> n \<and> n \<le> 122) \<or> n = 95 \<or> n = 32)"

section \<open>Prediction against result (the page \<^verbatim>\<open>ComparePage\<close>)\<close>

text \<open>
  \<^verbatim>\<open>DriverPrediction\<close> and \<^verbatim>\<open>ActualResult\<close> share four fields, kept in a common
  parent record. Positions are integers (the service sends whole numbers from 1 on);
  an absent \<^verbatim>\<open>grid_position\<close> is \<open>None\<close>. The entries of both arrays are objects,
  as their types say: the page's guards against a null entry have nothing to skip.
\<close>

record DriverEntry =
  driverRef :: string
  driver_name :: string
  team :: string
  grid_position :: "int option"

record DriverPrediction = DriverEntry +
  predicted_position :: int

record ActualResult = DriverEntry +
  finish_position :: int

record Accuracy =
  mae :: real
  rmse :: real
  exact_matches :: nat
  exact_match_rate :: real
  within_one :: nat
  within_one_rate :: real
  within_three :: nat
  within_three_rate :: real
  total_drivers :: nat

record ComparisonData =
  race_id :: int
  race_name :: string
  predictions :: "DriverPrediction list"
  actual_results :: "ActualResult list option"
  accuracy :: "Accuracy option"

text \<open>The points of the scatter plot and the rows of the comparison table. The fields
  of a point carry the prefix \<open>sp\<close>, and the team of a row is \<open>row_team\<close>, to keep them
  apart from the fields of the same names above.\<close>

record ScatterPoint =
  sp_driver :: string
  sp_predicted :: int
  sp_actual :: int
  sp_error :: int

record ComparisonRow =
  driver :: string
  row_team :: string
  predicted :: int
  actual :: int
  error :: int
  absError :: int

definition scatterData :: "ComparisonData \<Rightarrow> ScatterPoint list" where
  "scatterData data =
     (case actual_results data of
        None \<Rightarrow> []
      | Some results \<Rightarrow>
          List.map_filter
            (\<lambda>pred.
               case find (\<lambda>a. driverRef a = driverRef pred) results of
                 None \<Rightarrow> None
               | Some a \<Rightarrow>
                   Some \<lparr>sp_driver = driverRef pred,
                         sp_predicted = predicted_position pred,
                         sp_actual = finish_position a,
                         sp_error = \<bar>predicted_position pred - finish_position a\<bar>\<rparr>)
            (predictions data))"

text \<open>\<^verbatim>\<open>Array.prototype.sort\<close> is stable, and so is \<^const>\<open>sort_key\<close>: rows with the same
  finishing position keep the order of the predictions.\<close>

definition comparisonRow :: "DriverPrediction \<Rightarrow> ActualResult \<Rightarrow> ComparisonRow" where
  "comparisonRow pred a =
     (let err = predicted_position pred - finish_position a
      in \<lparr>driver = driverRef pred, row_team = team pred,
          predicted = predicted_position pred, actual = finish_position a,
          error = err, absError = \<bar>err\<bar>\<rparr>)"

text \<open>The chain \<^verbatim>\<open>.map(...).filter(item => item !== null)\<close>: one row for each prediction
  whose driver has a result (the first one with that \<^verbatim>\<open>driverRef\<close>), in the order of
  the predictions.\<close>

definition matchedRows :: "ActualResult list \<Rightarrow> DriverPrediction list \<Rightarrow> ComparisonRow list" where
  "matchedRows results preds =
     List.map_filter
       (\<lambda>pred.
          case find (\<lambda>a. driverRef a = driverRef pred) results of
            None \<Rightarrow> None
          | Some a \<Rightarrow> Some (comparisonRow pred a))
       preds"

definition comparisonTable :: "ComparisonData \<Rightarrow> ComparisonRow list" where
  "comparisonTable data =
     (case actual_results data of
        None \<Rightarrow> []
      | Some results \<Rightarrow> sort_key actual (matchedRows results (predictions data)))"

text \<open>
  What the page renders. While loading it shows a spinner; with an error message (a
  non-empty string) or without data it shows the error box; otherwise the main view,
  whose sections appear under the conditions below.
\<close>

record MainView =
  showAccuracy :: bool
  showScatter :: bool
  showTable :: bool
  showPredictionsOnly :: bool
  showNoPredictions :: bool

datatype Page = LoadingView | ErrorView string | ComparisonView MainView

definition mainView :: "ComparisonData \<Rightarrow> MainView" where
  "mainView data =
     \<lparr>showAccuracy = (case accuracy data of None \<Rightarrow> False | Some acc \<Rightarrow> total_drivers acc > 0),
      showScatter = (length (scatterData data) > 0),
      showTable = (length (comparisonTable data) > 0),
      showPredictionsOnly = (length (predictions data) > 0 \<and> actual_results data = None),
      showNoPredictions = (length (predictions data) = 0)\<rparr>"

definition ComparePage :: "bool \<Rightarrow> string option \<Rightarrow> ComparisonData option \<Rightarrow> Page" where
  "ComparePage loading err data =
     (if loading then LoadingView
      else case (if err = Some [] then None else err) of
             Some msg \<Rightarrow> ErrorView msg
           | None \<Rightarrow>
               (case data of
                  None \<Rightarrow> ErrorView ''No comparison data available''
                | Some d \<Rightarrow> ComparisonView (mainView d)))"

text \<open>
  Modelled from the spec: the accuracy summary. The page only displays the summary it
  receives; the service that computes it (backend/main.py) is not among the sources.
  The spec: the statistics are computed over exactly the matched set; MAE is the mean
  of the absolute errors, RMSE the square root of the mean of the squared errors; the
  counts threshold the absolute error at 0, 1 and 3; a rate is its count divided by
  the matched count, and with a matched count of 0 the means and the rates are 0.
\<close>

definition accuracySummary :: "ComparisonRow list \<Rightarrow> Accuracy" where
  "accuracySummary rows =
     (let n = length rows;
          exact = length (filter (\<lambda>r. absError r = 0) rows);
          one = length (filter (\<lambda>r. absError r \<le> 1) rows);
          three = length (filter (\<lambda>r. absError r \<le> 3) rows);
          rate = (\<lambda>k. if n = 0 then 0 else real k / real n)
      in \<lparr>mae = (if n = 0 then 0 else (\<Sum>r\<leftarrow>rows. real_of_int (absError r)) / real n),
          rmse = (if n = 0 then 0 else sqrt ((\<Sum>r\<leftarrow>rows. (real_of_int (error r))\<^sup>2) / real n)),
          exact_matches = exact, exact_match_rate = rate exact,
          within_one = one, within_one_rate = rate one,
          within_three = three, within_three_rate = rate three,
          total_drivers = n\<rparr>)"

text \<open>
  Modelled from the spec: \<^verbatim>\<open>buildComparison\<close>, the comparison the page builds together
  with the summary of the service: no summary when the race has not been run, the
  summary of the comparison rows otherwise. The rows are the page's own.
\<close>

definition buildComparison ::
  "DriverPrediction list \<Rightarrow> ActualResult list option \<Rightarrow> ComparisonRow list \<times> Accuracy option" where
  "buildComparison P actuals =
     (let rows = comparisonTable
                   \<lparr>race_id = 0, race_name = [], predictions = P,
                    actual_results = actuals, accuracy = None\<rparr>
      in (rows, case actuals of None \<Rightarrow> None | Some _ \<Rightarrow> Some (accuracySummary rows)))"

section \<open>Example inputs\<close>

text \<open>A race whose circuit name is a table key in another case, and a race that comes
  with no circuit name and no location.\<close>

definition raceSpa :: RaceInfo where
  "raceSpa =
     \<lparr>raceId = 13, label = ''Belgian Grand Prix'', name = ''Belgian Grand Prix'',
      circuit = ''SPA'', location = ''Stavelot'', country = ''Belgium'',
      round_no = 13, date = ''2025-07-27'', year = 2025\<rparr>"

definition raceNoCircuit :: RaceInfo where
  "raceNoCircuit =
     \<lparr>raceId = 3, label = ''Japanese Grand Prix'', name = ''Japanese Grand Prix'',
      circuit = [], location = [], country = ''japan'',
      round_no = 3, date = ''2025-04-06'', year = 2025\<rparr>"

text \<open>A driver slug with a letter beyond a to z: \<^verbatim>\<open>sergio_p\<close>, e with acute accent
  (U+00E9), \<^verbatim>\<open>rez\<close>.\<close>

definition slugPerez :: string where
  "slugPerez = ''sergio_p'' @ [CHR 0xE9] @ ''rez''"

text \<open>The scenario of the specification: A is predicted first and finishes second, B is
  predicted second and finishes first. A third prediction, for C, has no result.\<close>

definition predA :: DriverPrediction where
  "predA = \<lparr>driverRef = ''A'', driver_name = ''Driver A'', team = ''Team 1'',
            grid_position = None, predicted_position = 1\<rparr>"

definition predB :: DriverPrediction where
  "predB = \<lparr>driverRef = ''B'', driver_name = ''Driver B'', team = ''Team 2'',
            grid_position = Some 1, predicted_position = 2\<rparr>"

definition predC :: DriverPrediction where
  "predC = \<lparr>driverRef = ''C'', driver_name = ''Driver C'', team = ''Team 2'',
            grid_position = Some 5, predicted_position = 3\<rparr>"

definition actualA :: ActualResult where
  "actualA = \<lparr>driverRef = ''A'', driver_name = ''Driver A'', team = ''Team 1'',
              grid_position = None, finish_position = 2\<rparr>"

definition actualB :: ActualResult where
  "actualB = \<lparr>driverRef = ''B'', driver_name = ''Driver B'', team = ''Team 2'',
              grid_position = Some 1, finish_position = 1\<rparr>"

definition rowA :: ComparisonRow where
  "rowA = \<lparr>driver = ''A'', row_team = ''Team 1'', predicted = 1, actual = 2,
           error = - 1, absError = 1\<rparr>"

definition rowB :: ComparisonRow where
  "rowB = \<lparr>driver = ''B'', row_team = ''Team 2'', predicted = 2, actual = 1,
           error = 1, absError = 1\<rparr>"

definition raceRun :: "DriverPrediction list \<Rightarrow> ComparisonData" where
  "raceRun preds =
     \<lparr>race_id = 7, race_name = ''Example Grand Prix'', predictions = preds,
      actual_results = Some [actualA, actualB], accuracy = None\<rparr>"

definition raceNotRun :: ComparisonData where
  "raceNotRun =
     \<lparr>race_id = 8, race_name = ''Next Grand Prix'', predictions = [predA, predB],
      actual_results = None, accuracy = None\<rparr>"

section \<open>The comparison table\<close>

lemma matchedRows_Nil: "matchedRows A [] = []"
  by (simp add: matchedRows_def)

lemma matchedRows_Cons:
  "matchedRows A (p # ps) =
     (case find (\<lambda>a. driverRef a = driverRef p) A of
        None \<Rightarrow> matchedRows A ps
      | Some a \<Rightarrow> comparisonRow p a # matchedRows A ps)"
  by (simp add: matchedRows_def split: option.splits)

lemma find_driver_None:
  "find (\<lambda>a. driverRef a = d) A = None \<longleftrightarrow> d \<notin> driverRef ` set A"
  by (auto simp: find_None_iff)

lemma find_driver_Some:
  "find (\<lambda>a. driverRef a = d) A = Some a \<Longrightarrow> a \<in> set A \<and> driverRef a = d"
  by (auto simp: find_Some_iff)

lemma length_matchedRows_all:
  "\<forall>p\<in>set ps. driverRef p \<in> driverRef ` set A \<Longrightarrow> length (matchedRows A ps) = length ps"
proof (induction ps)
  case Nil
  show ?case by (simp add: matchedRows_Nil)
next
  case (Cons p ps)
  from Cons.prems have "driverRef p \<in> driverRef ` set A" by simp
  then obtain a where "find (\<lambda>a. driverRef a = driverRef p) A = Some a"
    using find_driver_None [of "driverRef p" A] by (cases "find (\<lambda>a. driverRef a = driverRef p) A") auto
  with Cons show ?case by (simp add: matchedRows_Cons)
qed

lemma set_matchedRows:
  "r \<in> set (matchedRows A ps) \<Longrightarrow>
     \<exists>p a. p \<in> set ps \<and> find (\<lambda>a. driverRef a = driverRef p) A = Some a \<and> r = comparisonRow p a"
proof (induction ps)
  case Nil
  then show ?case by (simp add: matchedRows_Nil)
next
  case (Cons p ps)
  show ?case
  proof (cases "find (\<lambda>a. driverRef a = driverRef p) A")
    case None
    with Cons show ?thesis by (auto simp: matchedRows_Cons)
  next
    case (Some a)
    with Cons show ?thesis by (auto simp: matchedRows_Cons)
  qed
qed

lemma drivers_matchedRows:
  "map driver (matchedRows A ps) = filter (\<lambda>d. d \<in> driverRef ` set A) (map driverRef ps)"
proof (induction ps)
  case Nil
  show ?case by (simp add: matchedRows_Nil)
next
  case (Cons p ps)
  show ?case
  proof (cases "find (\<lambda>a. driverRef a = driverRef p) A")
    case None
    moreover from None have "driverRef p \<notin> driverRef ` set A" by (simp add: find_driver_None)
    ultimately show ?thesis using Cons by (simp add: matchedRows_Cons)
  next
    case (Some a)
    moreover from Some have "driverRef p \<in> driverRef ` set A"
      using find_driver_None [of "driverRef p" A] by auto
    ultimately show ?thesis using Cons by (simp add: matchedRows_Cons comparisonRow_def Let_def)
  qed
qed

lemma set_drivers_matchedRows:
  "driver ` set (matchedRows A ps) = driverRef ` set ps \<inter> driverRef ` set A"
proof -
  have "driver ` set (matchedRows A ps) = set (map driver (matchedRows A ps))" by simp
  also have "\<dots> = set (filter (\<lambda>d. d \<in> driverRef ` set A) (map driverRef ps))"
    by (simp only: drivers_matchedRows)
  also have "\<dots> = driverRef ` set ps \<inter> driverRef ` set A" by auto
  finally show ?thesis .
qed

lemmas eval_rows = comparisonTable_def matchedRows_def comparisonRow_def List.map_filter_simps
  raceRun_def predA_def predB_def predC_def actualA_def actualB_def rowA_def rowB_def

lemma table_raceRun2: "comparisonTable (raceRun [predA, predB]) = [rowB, rowA]"
  by (simp add: eval_rows)

lemma table_raceRun3: "comparisonTable (raceRun [predA, predB, predC]) = [rowB, rowA]"
  by (simp add: eval_rows)

lemma rows_as_options_filter:
  "map Some (matchedRows A ps) =
     filter (\<lambda>x. x \<noteq> None)
       (map (\<lambda>p. map_option (comparisonRow p) (find (\<lambda>a. driverRef a = driverRef p) A)) ps)"
  by (induction ps) (simp_all add: matchedRows_Nil matchedRows_Cons split: option.splits)

lemma rows_as_options:
  assumes "\<forall>p\<in>set ps. driverRef p \<in> driverRef ` set A"
  shows "map Some (matchedRows A ps) =
       map (\<lambda>p. map_option (comparisonRow p) (find (\<lambda>a. driverRef a = driverRef p) A)) ps"
proof -
  have "find (\<lambda>a. driverRef a = driverRef p) A \<noteq> None" if "p \<in> set ps" for p
    using that assms find_driver_None [of "driverRef p" A] by blast
  then have "\<forall>x\<in>set (map (\<lambda>p. map_option (comparisonRow p)
                  (find (\<lambda>a. driverRef a = driverRef p) A)) ps). x \<noteq> None"
    by auto
  then show ?thesis unfolding rows_as_options_filter by (rule filter_True)
qed

text \<open>
  C3. When every driver of the prediction list also has a result, the comparison table
  has exactly as many rows as there are predictions, and its rows are in ascending order
  of the actual finishing position: the rows are, up to their order, the rows of the
  predictions, each built with the first result of its driver, so that the position a
  row is sorted by is the finishing position of that result.
\<close>

theorem comparisonTable_length_sorted:
  assumes "actual_results data = Some A"
    and "\<forall>p\<in>set (predictions data). driverRef p \<in> driverRef ` set A"
  shows "length (comparisonTable data) = length (predictions data)
         \<and> sorted (map actual (comparisonTable data))
         \<and> mset (map Some (comparisonTable data))
             = mset (map (\<lambda>p. map_option (comparisonRow p)
                                (find (\<lambda>a. driverRef a = driverRef p) A))
                       (predictions data))
         \<and> (\<forall>r\<in>set (comparisonTable data).
               \<exists>p\<in>set (predictions data). \<exists>a\<in>set A.
                 find (\<lambda>a. driverRef a = driverRef p) A = Some a
                 \<and> driverRef a = driverRef p \<and> driver r = driverRef p
                 \<and> predicted r = predicted_position p \<and> actual r = finish_position a)"
proof -
  have tab: "comparisonTable data = sort_key actual (matchedRows A (predictions data))"
    using assms(1) by (simp add: comparisonTable_def)
  have len: "length (comparisonTable data) = length (predictions data)"
    using assms(2) by (simp add: tab length_matchedRows_all)
  have srt: "sorted (map actual (comparisonTable data))"
    by (simp add: tab)
  have "mset (map Some (comparisonTable data)) = image_mset Some (mset (comparisonTable data))"
    by simp
  also have "\<dots> = image_mset Some (mset (matchedRows A (predictions data)))"
    by (simp add: tab)
  also have "\<dots> = mset (map Some (matchedRows A (predictions data)))"
    by simp
  also have "\<dots> = mset (map (\<lambda>p. map_option (comparisonRow p)
                                (find (\<lambda>a. driverRef a = driverRef p) A))
                       (predictions data))"
    using rows_as_options [OF assms(2)] by (simp only:)
  finally have ms: "mset (map Some (comparisonTable data))
             = mset (map (\<lambda>p. map_option (comparisonRow p)
                                (find (\<lambda>a. driverRef a = driverRef p) A))
                       (predictions data))" .
  have rows: "\<exists>p\<in>set (predictions data). \<exists>a\<in>set A.
                 find (\<lambda>a. driverRef a = driverRef p) A = Some a
                 \<and> driverRef a = driverRef p \<and> driver r = driverRef p
                 \<and> predicted r = predicted_position p \<and> actual r = finish_position a"
    if "r \<in> set (comparisonTable data)" for r
  proof -
    from that have "r \<in> set (matchedRows A (predictions data))" by (simp add: tab)
    then obtain p a where pa: "p \<in> set (predictions data)"
        "find (\<lambda>a. driverRef a = driverRef p) A = Some a" "r = comparisonRow p a"
      using set_matchedRows by blast
    from pa(2) have "a \<in> set A \<and> driverRef a = driverRef p" by (rule find_driver_Some)
    moreover from pa(3) have "driver r = driverRef p \<and> predicted r = predicted_position p
        \<and> actual r = finish_position a"
      by (simp add: comparisonRow_def Let_def)
    ultimately show ?thesis using pa(1,2) by blast
  qed
  from len srt ms rows show ?thesis by blast
qed

text \<open>The predictions come in the order A, B; the table has B first, who finished
  first.\<close>

theorem comparisonTable_length_sorted_witness:
  "actual_results (raceRun [predA, predB]) = Some [actualA, actualB]
   \<and> driverRef ` set (predictions (raceRun [predA, predB])) \<subseteq> driverRef ` set [actualA, actualB]
   \<and> length (comparisonTable (raceRun [predA, predB])) = length [predA, predB]
   \<and> sorted (map actual (comparisonTable (raceRun [predA, predB])))
   \<and> comparisonTable (raceRun [predA, predB]) = [rowB, rowA]
   \<and> map actual (comparisonTable (raceRun [predA, predB]))
       = [finish_position actualB, finish_position actualA]"
proof -
  have h1: "actual_results (raceRun [predA, predB]) = Some [actualA, actualB]"
    by (simp add: raceRun_def)
  have h2: "\<forall>p\<in>set (predictions (raceRun [predA, predB])). driverRef p \<in> driverRef ` set [actualA, actualB]"
    by (simp add: raceRun_def predA_def predB_def actualA_def actualB_def)
  have h3: "driverRef ` set (predictions (raceRun [predA, predB])) \<subseteq> driverRef ` set [actualA, actualB]"
    using h2 by blast
  have v: "map actual (comparisonTable (raceRun [predA, predB]))
       = [finish_position actualB, finish_position actualA]"
    by (simp add: table_raceRun2 rowA_def rowB_def actualA_def actualB_def)
  have p: "predictions (raceRun [predA, predB]) = [predA, predB]"
    by (simp add: raceRun_def)
  from comparisonTable_length_sorted [OF h1 h2]
  have "length (comparisonTable (raceRun [predA, predB])) = length (predictions (raceRun [predA, predB]))
        \<and> sorted (map actual (comparisonTable (raceRun [predA, predB])))"
    by blast
  then have "length (comparisonTable (raceRun [predA, predB])) = length [predA, predB]
        \<and> sorted (map actual (comparisonTable (raceRun [predA, predB])))"
    by (simp only: p)
  with h1 h3 v table_raceRun2 show ?thesis by blast
qed

text \<open>
  C4. In every row of the comparison table the signed error is the predicted position
  minus the actual position, sign kept, and the absolute error is the absolute value of
  that difference; the two positions are those of a prediction and of the first result
  with its driver. In the scenario of the specification A has error -1 and B has
  error +1, both with absolute error 1.
\<close>

theorem comparisonTable_errors:
  assumes "r \<in> set (comparisonTable data)"
  shows "error r = predicted r - actual r \<and> absError r = \<bar>predicted r - actual r\<bar>
         \<and> (\<exists>A p a. actual_results data = Some A \<and> p \<in> set (predictions data)
               \<and> find (\<lambda>a. driverRef a = driverRef p) A = Some a
               \<and> driver r = driverRef p
               \<and> predicted r = predicted_position p \<and> actual r = finish_position a)"
proof (cases "actual_results data")
  case None
  with assms show ?thesis by (simp add: comparisonTable_def)
next
  case (Some A)
  with assms have "r \<in> set (matchedRows A (predictions data))"
    by (simp add: comparisonTable_def)
  then obtain p a where pa: "p \<in> set (predictions data)"
      "find (\<lambda>a. driverRef a = driverRef p) A = Some a" "r = comparisonRow p a"
    using set_matchedRows by blast
  have "error r = predicted r - actual r \<and> absError r = \<bar>predicted r - actual r\<bar>"
    using pa(3) by (simp add: comparisonRow_def Let_def)
  moreover have "driver r = driverRef p \<and> predicted r = predicted_position p \<and> actual r = finish_position a"
    using pa(3) by (simp add: comparisonRow_def Let_def)
  ultimately show ?thesis using Some pa(1,2) by blast
qed

theorem comparisonTable_errors_witness:
  "rowA \<in> set (comparisonTable (raceRun [predA, predB]))
   \<and> rowB \<in> set (comparisonTable (raceRun [predA, predB]))
   \<and> error rowA = - 1 \<and> absError rowA = 1 \<and> error rowB = 1 \<and> absError rowB = 1
   \<and> error rowA = predicted rowA - actual rowA \<and> absError rowA = \<bar>predicted rowA - actual rowA\<bar>"
proof -
  have h: "rowA \<in> set (comparisonTable (raceRun [predA, predB]))"
    by (simp add: table_raceRun2)
  from comparisonTable_errors [OF h] h show ?thesis
    by (simp add: table_raceRun2 rowA_def rowB_def)
qed

text \<open>
  C6. The rows of the comparison table are built for exactly the predictions whose
  driver also occurs among the results, one row each: every row's driver occurs in both
  lists, and a prediction whose driver has no result leaves no row. Nothing fails on
  the way: the table is a value for every input.
\<close>

theorem comparisonTable_matched_only:
  assumes "actual_results data = Some A"
  shows "mset (map driver (comparisonTable data))
           = mset (filter (\<lambda>d. d \<in> driverRef ` set A) (map driverRef (predictions data)))
         \<and> (\<forall>r\<in>set (comparisonTable data).
               driver r \<in> driverRef ` set (predictions data) \<inter> driverRef ` set A)
         \<and> (\<forall>p\<in>set (predictions data).
               driverRef p \<notin> driverRef ` set A \<longrightarrow>
               driverRef p \<notin> driver ` set (comparisonTable data))"
proof -
  have tab: "comparisonTable data = sort_key actual (matchedRows A (predictions data))"
    using assms by (simp add: comparisonTable_def)
  have "mset (map driver (comparisonTable data))
          = mset (map driver (matchedRows A (predictions data)))"
    by (simp add: tab)
  then have m: "mset (map driver (comparisonTable data))
          = mset (filter (\<lambda>d. d \<in> driverRef ` set A) (map driverRef (predictions data)))"
    by (simp only: drivers_matchedRows)
  have s: "driver ` set (comparisonTable data)
          = driverRef ` set (predictions data) \<inter> driverRef ` set A"
    by (simp add: tab set_drivers_matchedRows)
  from m s show ?thesis by blast
qed

theorem comparisonTable_matched_only_witness:
  "actual_results (raceRun [predA, predB, predC]) = Some [actualA, actualB]
   \<and> predC \<in> set (predictions (raceRun [predA, predB, predC]))
   \<and> driverRef predC \<notin> driverRef ` set [actualA, actualB]
   \<and> driverRef predC \<notin> driver ` set (comparisonTable (raceRun [predA, predB, predC]))
   \<and> map driver (comparisonTable (raceRun [predA, predB, predC])) = [''B'', ''A'']"
proof -
  have h: "actual_results (raceRun [predA, predB, predC]) = Some [actualA, actualB]"
    by (simp add: raceRun_def)
  have c: "predC \<in> set (predictions (raceRun [predA, predB, predC]))"
    by (simp add: raceRun_def)
  have n: "driverRef predC \<notin> driverRef ` set [actualA, actualB]"
    by (simp add: predC_def actualA_def actualB_def)
  from comparisonTable_matched_only [OF h] c n
  have "driverRef predC \<notin> driver ` set (comparisonTable (raceRun [predA, predB, predC]))"
    by blast
  with h c n show ?thesis by (simp add: table_raceRun3 rowA_def rowB_def)
qed

section \<open>The accuracy summary\<close>

lemma filter_length_le: "length (filter P xs) \<le> length xs"
  by simp

lemma rate_bounds:
  assumes "k \<le> n"
  shows "0 \<le> (if n = 0 then 0 else real k / real n) \<and> (if n = 0 then 0 else real k / real n) \<le> 1"
  using assms by simp

lemma summary_example:
  "accuracySummary [rowB, rowA] =
     \<lparr>mae = 1, rmse = 1, exact_matches = 0, exact_match_rate = 0,
      within_one = 2, within_one_rate = 1, within_three = 2, within_three_rate = 1,
      total_drivers = 2\<rparr>"
  by (simp add: accuracySummary_def Let_def rowA_def rowB_def)

lemma summary_empty:
  "accuracySummary [] =
     \<lparr>mae = 0, rmse = 0, exact_matches = 0, exact_match_rate = 0,
      within_one = 0, within_one_rate = 0, within_three = 0, within_three_rate = 0,
      total_drivers = 0\<rparr>"
  by (simp add: accuracySummary_def Let_def)

text \<open>
  C7. In the accuracy summary the exact-match, within-one and within-three rates lie
  between 0 and 1; with at least one matched driver each rate is its count divided by
  the number of matched drivers; with no matched driver the mean absolute error, the
  root mean square error and the three rates are 0. Every field is a number.
\<close>

theorem accuracySummary_rates:
  assumes "s = accuracySummary rows"
  shows "total_drivers s = length rows
         \<and> 0 \<le> exact_match_rate s \<and> exact_match_rate s \<le> 1
         \<and> 0 \<le> within_one_rate s \<and> within_one_rate s \<le> 1
         \<and> 0 \<le> within_three_rate s \<and> within_three_rate s \<le> 1
         \<and> (total_drivers s > 0 \<longrightarrow>
               exact_match_rate s = real (exact_matches s) / real (total_drivers s)
             \<and> within_one_rate s = real (within_one s) / real (total_drivers s)
             \<and> within_three_rate s = real (within_three s) / real (total_drivers s))
         \<and> (total_drivers s = 0 \<longrightarrow>
               mae s = 0 \<and> rmse s = 0 \<and> exact_match_rate s = 0
             \<and> within_one_rate s = 0 \<and> within_three_rate s = 0)"
proof -
  have t: "total_drivers s = length rows"
    by (simp add: assms accuracySummary_def Let_def)
  have e: "0 \<le> exact_match_rate s \<and> exact_match_rate s \<le> 1"
    using rate_bounds [OF filter_length_le [of "\<lambda>r. absError r = 0" rows]]
    by (simp add: assms accuracySummary_def Let_def)
  have o: "0 \<le> within_one_rate s \<and> within_one_rate s \<le> 1"
    using rate_bounds [OF filter_length_le [of "\<lambda>r. absError r \<le> 1" rows]]
    by (simp add: assms accuracySummary_def Let_def)
  have h: "0 \<le> within_three_rate s \<and> within_three_rate s \<le> 1"
    using rate_bounds [OF filter_length_le [of "\<lambda>r. absError r \<le> 3" rows]]
    by (simp add: assms accuracySummary_def Let_def)
  have p: "total_drivers s > 0 \<longrightarrow>
               exact_match_rate s = real (exact_matches s) / real (total_drivers s)
             \<and> within_one_rate s = real (within_one s) / real (total_drivers s)
             \<and> within_three_rate s = real (within_three s) / real (total_drivers s)"
    by (simp add: assms accuracySummary_def Let_def)
  have z: "total_drivers s = 0 \<longrightarrow>
               mae s = 0 \<and> rmse s = 0 \<and> exact_match_rate s = 0
             \<and> within_one_rate s = 0 \<and> within_three_rate s = 0"
    by (simp add: assms accuracySummary_def Let_def)
  from t e o h p z show ?thesis by blast
qed

theorem accuracySummary_rates_witness:
  "total_drivers (accuracySummary [rowB, rowA]) > 0
   \<and> mae (accuracySummary [rowB, rowA]) = 1
   \<and> exact_matches (accuracySummary [rowB, rowA]) = 0
   \<and> within_one (accuracySummary [rowB, rowA]) = 2
   \<and> within_one_rate (accuracySummary [rowB, rowA]) = 1
   \<and> within_one_rate (accuracySummary [rowB, rowA])
       = real (within_one (accuracySummary [rowB, rowA])) / real (total_drivers (accuracySummary [rowB, rowA]))
   \<and> total_drivers (accuracySummary []) = 0
   \<and> mae (accuracySummary []) = 0 \<and> rmse (accuracySummary []) = 0
   \<and> exact_match_rate (accuracySummary []) = 0"
proof -
  have pos: "total_drivers (accuracySummary [rowB, rowA]) > 0"
    by (simp add: summary_example)
  have zero: "total_drivers (accuracySummary []) = 0"
    by (simp add: summary_empty)
  from accuracySummary_rates [OF refl, of "[rowB, rowA]"] pos
  have "within_one_rate (accuracySummary [rowB, rowA])
       = real (within_one (accuracySummary [rowB, rowA])) / real (total_drivers (accuracySummary [rowB, rowA]))"
    by blast
  moreover from accuracySummary_rates [OF refl, of "[]"] zero
  have "mae (accuracySummary []) = 0 \<and> rmse (accuracySummary []) = 0
        \<and> exact_match_rate (accuracySummary []) = 0"
    by blast
  ultimately show ?thesis using pos zero by (simp add: summary_example)
qed

text \<open>
  C5. For a non-empty prediction list and absent results the comparison has no rows and
  no accuracy summary, and the page treats this as no error: it shows the main view
  with the predictions-only section, and neither the accuracy panel, the scatter plot
  nor the comparison table.
\<close>

theorem buildComparison_no_actuals:
  assumes "P \<noteq> []" and "predictions data = P" and "actual_results data = None"
    and "accuracy data = snd (buildComparison P None)"
  shows "buildComparison P None = ([], None)
         \<and> comparisonTable data = [] \<and> scatterData data = []
         \<and> ComparePage False None (Some data) =
             ComparisonView \<lparr>showAccuracy = False, showScatter = False, showTable = False,
                             showPredictionsOnly = True, showNoPredictions = False\<rparr>"
proof -
  have b: "buildComparison P None = ([], None)"
    by (simp add: buildComparison_def comparisonTable_def)
  have t: "comparisonTable data = []" using assms(3) by (simp add: comparisonTable_def)
  have sc: "scatterData data = []" using assms(3) by (simp add: scatterData_def)
  have acc: "accuracy data = None" using assms(4) b by simp
  have "mainView data = \<lparr>showAccuracy = False, showScatter = False, showTable = False,
                         showPredictionsOnly = True, showNoPredictions = False\<rparr>"
    using assms(1,2,3) t sc acc by (simp add: mainView_def)
  then have "ComparePage False None (Some data) =
             ComparisonView \<lparr>showAccuracy = False, showScatter = False, showTable = False,
                             showPredictionsOnly = True, showNoPredictions = False\<rparr>"
    by (simp add: ComparePage_def)
  with b t sc show ?thesis by blast
qed

theorem buildComparison_no_actuals_witness:
  "[predA, predB] \<noteq> [] \<and> predictions raceNotRun = [predA, predB]
   \<and> actual_results raceNotRun = None
   \<and> accuracy raceNotRun = snd (buildComparison [predA, predB] None)
   \<and> buildComparison [predA, predB] None = ([], None)
   \<and> comparisonTable raceNotRun = []
   \<and> ComparePage False None (Some raceNotRun) =
             ComparisonView \<lparr>showAccuracy = False, showScatter = False, showTable = False,
                             showPredictionsOnly = True, showNoPredictions = False\<rparr>"
proof -
  have h1: "[predA, predB] \<noteq> []" by simp
  have h2: "predictions raceNotRun = [predA, predB]" by (simp add: raceNotRun_def)
  have h3: "actual_results raceNotRun = None" by (simp add: raceNotRun_def)
  have h4: "accuracy raceNotRun = snd (buildComparison [predA, predB] None)"
    by (simp add: raceNotRun_def buildComparison_def)
  from buildComparison_no_actuals [OF h1 h2 h3 h4] h1 h2 h3 h4 show ?thesis by blast
qed

section \<open>Display names\<close>

lemma upperWordChar_Char:
  "upperWordChar (Char b0 b1 b2 b3 b4 b5 b6 b7) =
     (let n = (of_char (Char b0 b1 b2 b3 b4 b5 b6 b7) :: nat)
      in if 97 \<le> n \<and> n \<le> 122
         then Char b0 b1 b2 b3 b4 False b6 b7 else Char b0 b1 b2 b3 b4 b5 b6 b7)"
  by (cases b0; cases b1; cases b2; cases b3; cases b4; cases b5; cases b6; cases b7)
     (simp_all add: upperWordChar_def char_of_def bit_Suc_0_iff)

lemma length_capitalizeWords: "length (capitalizeWords prevWord s) = length s"
  by (induction s arbitrary: prevWord) simp_all

lemma nth_capitalizeWords:
  "i < length s \<Longrightarrow>
     capitalizeWords prevWord s ! i =
       (if isWordChar (s ! i) \<and> \<not> (if i = 0 then prevWord else isWordChar (s ! (i - 1)))
        then upperWordChar (s ! i) else s ! i)"
proof (induction s arbitrary: prevWord i)
  case Nil
  then show ?case by simp
next
  case (Cons c cs)
  show ?case
  proof (cases i)
    case 0
    then show ?thesis by simp
  next
    case (Suc j)
    with Cons.prems have "j < length cs" by simp
    from Cons.IH [OF this, of "isWordChar c"] Suc show ?thesis
      by (cases j) simp_all
  qed
qed

lemma not_isWordChar_space: "\<not> isWordChar CHR '' ''"
  by (simp add: isWordChar_def)

lemma isWordChar_underscore: "isWordChar CHR ''_''"
  by (simp add: isWordChar_def)

lemma formatDriverName_positions:
  "formatDriverName ''max_verstappen'' = ''Max Verstappen''
   \<and> formatDriverName [] = []
   \<and> length (formatDriverName nm) = length nm
   \<and> (\<forall>i < length nm.
         formatDriverName nm ! i =
           (if nm ! i = CHR ''_'' then CHR '' ''
            else if isWordChar (nm ! i)
                    \<and> (i = 0 \<or> nm ! (i - 1) = CHR ''_'' \<or> \<not> isWordChar (nm ! (i - 1)))
                 then upperWordChar (nm ! i) else nm ! i))"
proof -
  have ex: "formatDriverName ''max_verstappen'' = ''Max Verstappen''"
    by (simp add: formatDriverName_def replaceUnderscores_def isWordChar_def upperWordChar_Char)
  have emp: "formatDriverName [] = []"
    by (simp add: formatDriverName_def replaceUnderscores_def)
  have len: "length (formatDriverName nm) = length nm"
    by (simp add: formatDriverName_def replaceUnderscores_def length_capitalizeWords)
  have nth: "formatDriverName nm ! i =
           (if nm ! i = CHR ''_'' then CHR '' ''
            else if isWordChar (nm ! i)
                    \<and> (i = 0 \<or> nm ! (i - 1) = CHR ''_'' \<or> \<not> isWordChar (nm ! (i - 1)))
                 then upperWordChar (nm ! i) else nm ! i)" if "i < length nm" for i
  proof -
    let ?r = "replaceUnderscores nm"
    from that have i': "i < length ?r" by (simp add: replaceUnderscores_def)
    have r: "?r ! j = (if nm ! j = CHR ''_'' then CHR '' '' else nm ! j)"
      if "j < length nm" for j using that by (simp add: replaceUnderscores_def)
    have cap: "formatDriverName nm ! i =
        (if isWordChar (?r ! i) \<and> \<not> (if i = 0 then False else isWordChar (?r ! (i - 1)))
         then upperWordChar (?r ! i) else ?r ! i)"
      using nth_capitalizeWords [OF i', of False] by (simp add: formatDriverName_def)
    show ?thesis
    proof (cases "i = 0")
      case True
      then show ?thesis unfolding cap r [OF that] by (simp add: not_isWordChar_space)
    next
      case False
      with that have "i - 1 < length nm" by simp
      note rp = r [OF this]
      from False show ?thesis unfolding cap r [OF that] rp
        by (auto simp add: not_isWordChar_space)
    qed
  qed
  from ex emp len nth show ?thesis by blast
qed

lemma lowerChar_Char:
  "lowerChar (Char b0 b1 b2 b3 b4 b5 b6 b7) =
     (let n = (of_char (Char b0 b1 b2 b3 b4 b5 b6 b7) :: nat)
      in if (65 \<le> n \<and> n \<le> 90) \<or> (192 \<le> n \<and> n \<le> 222 \<and> n \<noteq> 215)
         then Char b0 b1 b2 b3 b4 True b6 b7 else Char b0 b1 b2 b3 b4 b5 b6 b7)"
  by (cases b0; cases b1; cases b2; cases b3; cases b4; cases b5; cases b6; cases b7)
     (simp_all add: lowerChar_def char_of_def bit_Suc_0_iff)

lemma upperChar_Char:
  "upperChar (Char b0 b1 b2 b3 b4 b5 b6 b7) =
     (let n = (of_char (Char b0 b1 b2 b3 b4 b5 b6 b7) :: nat)
      in if (97 \<le> n \<and> n \<le> 122) \<or> (224 \<le> n \<and> n \<le> 254 \<and> n \<noteq> 247)
         then Char b0 b1 b2 b3 b4 False b6 b7 else Char b0 b1 b2 b3 b4 b5 b6 b7)"
  by (cases b0; cases b1; cases b2; cases b3; cases b4; cases b5; cases b6; cases b7)
     (simp_all add: upperChar_def char_of_def bit_Suc_0_iff)

lemma char_is_space: "of_char c = (32::nat) \<longleftrightarrow> c = CHR '' ''"
proof -
  have "of_char c = (of_char CHR '' '' :: nat) \<longleftrightarrow> c = CHR '' ''" by (rule of_char_eq_iff)
  then show ?thesis by simp
qed

lemma char_is_underscore: "of_char c = (95::nat) \<longleftrightarrow> c = CHR ''_''"
proof -
  have "of_char c = (of_char CHR ''_'' :: nat) \<longleftrightarrow> c = CHR ''_''" by (rule of_char_eq_iff)
  then show ?thesis by simp
qed

lemma slug_letter:
  assumes "isSlugChar c" and "c \<noteq> CHR '' ''" and "c \<noteq> CHR ''_''"
  shows "isWordChar c \<and> lowerChar c = c \<and> upperChar c = upperWordChar c"
proof -
  from assms have "97 \<le> (of_char c :: nat) \<and> (of_char c :: nat) \<le> 122"
    by (auto simp: isSlugChar_def Let_def char_is_space char_is_underscore)
  then show ?thesis
    by (simp add: isWordChar_def lowerChar_def upperChar_def upperWordChar_def Let_def)
qed

lemma capitalize_is_titleCase:
  "\<forall>c\<in>set s. isSlugChar c \<and> c \<noteq> CHR ''_'' \<Longrightarrow>
     capitalizeWords inWord s = titleCaseWords inWord s"
proof (induction s arbitrary: inWord)
  case Nil
  show ?case by simp
next
  case (Cons c cs)
  then have ih: "capitalizeWords b cs = titleCaseWords b cs" for b by simp
  show ?case
  proof (cases "c = CHR '' ''")
    case True
    then show ?thesis by (simp add: ih not_isWordChar_space)
  next
    case False
    with Cons.prems have "isWordChar c \<and> lowerChar c = c \<and> upperChar c = upperWordChar c"
      by (simp add: slug_letter)
    with False show ?thesis by (simp add: ih)
  qed
qed

lemma replaceUnderscores_slug:
  "\<forall>c\<in>set s. isSlugChar c \<Longrightarrow>
     \<forall>c\<in>set (replaceUnderscores s). isSlugChar c \<and> c \<noteq> CHR ''_''"
  by (auto simp: replaceUnderscores_def isSlugChar_def)

lemma formatDriverName_refines:
  assumes "\<forall>c\<in>set nm. isSlugChar c"
  shows "formatDriverName nm = formatDisplayName nm"
  using capitalize_is_titleCase [OF replaceUnderscores_slug [OF assms]]
  by (simp add: formatDriverName_def formatDisplayName_def)

lemma perez_code: "formatDriverName slugPerez = ''Sergio P'' @ [CHR 0xE9] @ ''Rez''"
  by (simp add: slugPerez_def formatDriverName_def replaceUnderscores_def isWordChar_def upperWordChar_Char)

lemma perez_spec: "formatDisplayName slugPerez = ''Sergio P'' @ [CHR 0xE9] @ ''rez''"
  by (simp add: slugPerez_def formatDisplayName_def replaceUnderscores_def lowerChar_Char upperChar_Char)

text \<open>
  C9. \<open>formatDriverName\<close> is defined on every string. It turns each underscore into a
  space and upper-cases every word character \<^verbatim>\<open>[A-Za-z0-9_]\<close> that starts the string or
  follows an underscore or a character outside that class; every other character is
  kept. On a driver slug, made of the letters a to z, underscores and spaces, this is
  the specification's \<^verbatim>\<open>formatDisplayName\<close>: each word is title-cased. In particular
  \<^verbatim>\<open>max_verstappen\<close> becomes \<^verbatim>\<open>Max Verstappen\<close> and the empty string stays empty.
\<close>

theorem formatDriverName_capitalizes:
  "formatDriverName ''max_verstappen'' = ''Max Verstappen''
   \<and> formatDriverName [] = []
   \<and> length (formatDriverName nm) = length nm
   \<and> (\<forall>i < length nm.
         formatDriverName nm ! i =
           (if nm ! i = CHR ''_'' then CHR '' ''
            else if isWordChar (nm ! i)
                    \<and> (i = 0 \<or> nm ! (i - 1) = CHR ''_'' \<or> \<not> isWordChar (nm ! (i - 1)))
                 then upperWordChar (nm ! i) else nm ! i))
   \<and> ((\<forall>c\<in>set nm. isSlugChar c) \<longrightarrow> formatDriverName nm = formatDisplayName nm)"
  using formatDriverName_positions [of nm] formatDriverName_refines [of nm] by blast

theorem formatDriverName_capitalizes_witness:
  "(6::nat) < length ''lando_norris''
   \<and> list_all isSlugChar ''lando_norris''
   \<and> formatDriverName ''lando_norris'' = ''Lando Norris''
   \<and> formatDisplayName ''lando_norris'' = ''Lando Norris''
   \<and> formatDriverName ''lando_norris'' ! 6 = CHR ''N''
   \<and> formatDriverName ''lando_norris'' ! 5 = CHR '' ''"
proof -
  have slug: "list_all isSlugChar ''lando_norris''"
    by (simp add: isSlugChar_def)
  then have h: "\<forall>c\<in>set ''lando_norris''. isSlugChar c"
    by (simp only: list_all_iff)
  have v: "formatDriverName ''lando_norris'' = ''Lando Norris''"
    by (simp add: formatDriverName_def replaceUnderscores_def isWordChar_def upperWordChar_Char)
  have i: "(6::nat) < length ''lando_norris''" by simp
  note t = formatDriverName_capitalizes [of "''lando_norris''"]
  from t h have r: "formatDriverName ''lando_norris'' = formatDisplayName ''lando_norris''"
    by blast
  from t i
  have "formatDriverName ''lando_norris'' ! 6 =
           (if ''lando_norris'' ! 6 = CHR ''_'' then CHR '' ''
            else if isWordChar (''lando_norris'' ! 6)
                    \<and> (6 = (0::nat) \<or> ''lando_norris'' ! (6 - 1) = CHR ''_'' \<or> \<not> isWordChar (''lando_norris'' ! (6 - 1)))
                 then upperWordChar (''lando_norris'' ! 6) else ''lando_norris'' ! 6)"
    by blast
  then have "formatDriverName ''lando_norris'' ! 6 = CHR ''N''"
    by (simp add: isWordChar_def upperWordChar_Char)
  with v r slug show ?thesis by simp
qed

text \<open>
  Beyond the driver slugs the two part: the letter e with acute accent is no word
  character, so the r after it starts a word for \<open>formatDriverName\<close>, which makes
  \<^verbatim>\<open>sergio_p\<close>, U+00E9, \<^verbatim>\<open>rez\<close> into \<^verbatim>\<open>Sergio P\<close>, U+00E9, \<^verbatim>\<open>Rez\<close>, where title-casing
  the two words gives \<^verbatim>\<open>Sergio P\<close>, U+00E9, \<^verbatim>\<open>rez\<close>.
\<close>

theorem formatDriverName_title_case_counterexample:
  "formatDriverName slugPerez = ''Sergio P'' @ [CHR 0xE9] @ ''Rez''
   \<and> formatDisplayName slugPerez = ''Sergio P'' @ [CHR 0xE9] @ ''rez''
   \<and> formatDriverName slugPerez \<noteq> formatDisplayName slugPerez"
  by (simp add: perez_code perez_spec)

section \<open>Race coordinates\<close>

text \<open>\<open>str_includes\<close> is the containment of a contiguous run.\<close>

lemma startsWith_iff: "startsWith s p \<longleftrightarrow> (\<exists>suf. s = p @ suf)"
  by (induction s p rule: startsWith.induct) auto

lemma str_includes_iff: "str_includes s sub \<longleftrightarrow> (\<exists>pre suf. s = pre @ sub @ suf)"
proof (induction s)
  case Nil
  show ?case by auto
next
  case (Cons d s)
  show ?case
  proof
    assume "str_includes (d # s) sub"
    then consider "startsWith (d # s) sub" | "str_includes s sub" by auto
    then show "\<exists>pre suf. d # s = pre @ sub @ suf"
    proof cases
      case 1
      then obtain suf where "d # s = sub @ suf" using startsWith_iff by blast
      then have "d # s = [] @ sub @ suf" by simp
      then show ?thesis by blast
    next
      case 2
      with Cons obtain pre suf where "s = pre @ sub @ suf" by blast
      then have "d # s = (d # pre) @ sub @ suf" by simp
      then show ?thesis by blast
    qed
  next
    assume "\<exists>pre suf. d # s = pre @ sub @ suf"
    then obtain pre suf where e: "d # s = pre @ sub @ suf" by blast
    show "str_includes (d # s) sub"
    proof (cases pre)
      case Nil
      with e have "startsWith (d # s) sub" using startsWith_iff by auto
      then show ?thesis by simp
    next
      case (Cons x pre')
      with e have "s = pre' @ sub @ suf" by simp
      then have "str_includes s sub" using Cons.IH by blast
      then show ?thesis by simp
    qed
  qed
qed

lemma toLowerCase_Nil_iff: "toLowerCase s = [] \<longleftrightarrow> s = []"
  by (simp add: toLowerCase_def)

lemma str_includes_Nil: "str_includes s []"
  by (cases s) simp_all

lemma findKey_Nil: "findKey [] mapping = None"
  by (simp add: findKey_def)

lemma lowerKeys_Nil [simp]: "lowerKeys [] = []"
  by (simp add: lowerKeys_def)

lemma lowerKeys_Cons [simp]: "lowerKeys ((key, c) # rest) = toLowerCase key # lowerKeys rest"
  by (simp add: lowerKeys_def)

lemma lowerKeys_mem: "(key, c) \<in> set mapping \<Longrightarrow> toLowerCase key \<in> set (lowerKeys mapping)"
  by (induction mapping) auto

lemma snd_mem: "(key, c) \<in> set mapping \<Longrightarrow> c \<in> snd ` set mapping"
  by (metis image_eqI snd_conv)

lemma findExact_None_iff:
  "findExact s mapping = None \<longleftrightarrow> s \<notin> set (lowerKeys mapping)"
proof (induction mapping)
  case Nil
  show ?case by simp
next
  case (Cons e mapping)
  obtain k c where e: "e = (k, c)" by (cases e)
  show ?case
  proof (cases "toLowerCase k = s")
    case True
    with e show ?thesis by auto
  next
    case False
    then have "s \<noteq> toLowerCase k" by blast
    with False e Cons show ?thesis by simp
  qed
qed

lemma findPartial_None_iff:
  "findPartial s mapping = None \<longleftrightarrow>
     \<not> list_ex (\<lambda>k. str_includes s k \<or> str_includes k s) (lowerKeys mapping)"
proof (induction mapping)
  case Nil
  show ?case by simp
next
  case (Cons e mapping)
  obtain k c where e: "e = (k, c)" by (cases e)
  show ?case
  proof (cases "str_includes s (toLowerCase k) \<or> str_includes (toLowerCase k) s")
    case True
    with e show ?thesis by (simp add: Let_def)
  next
    case False
    with e Cons show ?thesis by (simp add: Let_def)
  qed
qed

lemma findKey_None_iff:
  "findKey s mapping = None \<longleftrightarrow>
     s = [] \<or> (\<not> matchesExactly s mapping \<and> \<not> matchesPartially s mapping)"
proof (cases "s = []")
  case True
  then show ?thesis by (simp add: findKey_def)
next
  case False
  show ?thesis
  proof (cases "findExact (toLowerCase s) mapping")
    case None
    with False show ?thesis
      using findExact_None_iff [of "toLowerCase s" mapping]
        findPartial_None_iff [of "toLowerCase s" mapping]
      by (simp add: findKey_def matchesExactly_def matchesPartially_def)
  next
    case (Some c)
    with False show ?thesis
      using findExact_None_iff [of "toLowerCase s" mapping]
      by (simp add: findKey_def matchesExactly_def)
  qed
qed

lemma findExact_Some_mem: "findExact s mapping = Some c \<Longrightarrow> c \<in> snd ` set mapping"
  by (induction s mapping rule: findExact.induct) (auto split: if_splits)

lemma findPartial_Some_mem: "findPartial s mapping = Some c \<Longrightarrow> c \<in> snd ` set mapping"
  by (induction s mapping rule: findPartial.induct) (auto simp: Let_def split: if_splits)

lemma findKey_Some_mem: "findKey s mapping = Some c \<Longrightarrow> c \<in> snd ` set mapping"
  by (auto simp: findKey_def Let_def split: if_splits option.splits
        dest: findExact_Some_mem findPartial_Some_mem)

lemma findExact_distinct:
  "distinct (lowerKeys mapping) \<Longrightarrow> (key, c) \<in> set mapping \<Longrightarrow>
     findExact (toLowerCase key) mapping = Some c"
proof (induction mapping)
  case Nil
  then show ?case by simp
next
  case (Cons e mapping)
  obtain k' c' where e: "e = (k', c')" by (cases e)
  show ?case
  proof (cases "(key, c) = e")
    case True
    with e show ?thesis by simp
  next
    case False
    with Cons.prems have mem: "(key, c) \<in> set mapping" by simp
    then have "toLowerCase key \<in> set (lowerKeys mapping)" by (rule lowerKeys_mem)
    moreover from Cons.prems(1) e
    have "toLowerCase k' \<notin> set (lowerKeys mapping)" by simp
    ultimately have "toLowerCase k' \<noteq> toLowerCase key" by metis
    moreover from Cons.prems(1) e have "distinct (lowerKeys mapping)" by simp
    ultimately show ?thesis using Cons.IH mem e by simp
  qed
qed

lemma CIRCUIT_lower_distinct: "distinct (lowerKeys CIRCUIT_COORDINATES)"
  by (simp add: lowerKeys_def toLowerCase_def lowerChar_Char CIRCUIT_COORDINATES_def)

lemma CIRCUIT_keys_nonempty: "[] \<notin> fst ` set CIRCUIT_COORDINATES"
  by (simp add: CIRCUIT_COORDINATES_def)

lemmas eval_lower = toLowerCase_def lowerChar_Char

text \<open>
  C2. When the circuit name of a race equals a key of the circuit table up to case, the
  exact-match loop returns at that key and \<open>getRaceCoordinates\<close> returns the key's
  coordinates, whatever the location and the country are.
\<close>

theorem exact_match_precedence:
  assumes "(key, c) \<in> set CIRCUIT_COORDINATES"
    and "toLowerCase (circuit race) = toLowerCase key"
  shows "findExact (toLowerCase (circuit race)) CIRCUIT_COORDINATES = Some c
         \<and> getRaceCoordinates race = Coords c"
proof -
  from assms(1) have "key \<noteq> []" using CIRCUIT_keys_nonempty by force
  with assms(2) have ne: "circuit race \<noteq> []"
    using toLowerCase_Nil_iff by metis
  have ex: "findExact (toLowerCase (circuit race)) CIRCUIT_COORDINATES = Some c"
    using findExact_distinct [OF CIRCUIT_lower_distinct assms(1)] assms(2) by simp
  from ne ex have "findKey (circuit race) CIRCUIT_COORDINATES = Some c"
    by (simp add: findKey_def)
  with ex show ?thesis by (simp add: getRaceCoordinates_def)
qed

text \<open>The circuit name \<^verbatim>\<open>SPA\<close> is found at the key \<^verbatim>\<open>Spa\<close>, although the partial
  match alone would stop earlier, at \<^verbatim>\<open>Spain\<close>.\<close>

theorem exact_match_precedence_witness:
  "(''Spa'', (50.437222, 5.971389)) \<in> set CIRCUIT_COORDINATES
   \<and> toLowerCase (circuit raceSpa) = toLowerCase ''Spa''
   \<and> findPartial (toLowerCase (circuit raceSpa)) CIRCUIT_COORDINATES = Some (41.57, 2.261111)
   \<and> getRaceCoordinates raceSpa = Coords (50.437222, 5.971389)"
proof -
  have mem: "(''Spa'', (50.437222, 5.971389)) \<in> set CIRCUIT_COORDINATES"
    by (simp add: CIRCUIT_COORDINATES_def)
  have low: "toLowerCase (circuit raceSpa) = toLowerCase ''Spa''"
    by (simp add: raceSpa_def eval_lower)
  have part: "findPartial (toLowerCase (circuit raceSpa)) CIRCUIT_COORDINATES = Some (41.57, 2.261111)"
    by (simp add: raceSpa_def eval_lower CIRCUIT_COORDINATES_def)
  from exact_match_precedence [OF mem low] mem low part show ?thesis by simp
qed

text \<open>
  C10. The empty search string matches no key of any table, although every key
  contains it; so a race with an empty circuit name and an empty location is resolved
  from its country alone: by the property read, else by \<open>findKey\<close> on the country table,
  else by the default.
\<close>

theorem findKey_empty_never_matches:
  "findKey [] mapping = None \<and> str_includes key []
   \<and> (circuit race = [] \<and> location race = [] \<longrightarrow>
        getRaceCoordinates race =
          (case getProperty COUNTRY_COORDINATES (country race) of
             Some v \<Rightarrow> v
           | None \<Rightarrow>
               (case findKey (country race) COUNTRY_COORDINATES of
                  Some countryMatch \<Rightarrow> Coords countryMatch
                | None \<Rightarrow> Coords (20, 0))))"
  by (simp add: findKey_Nil str_includes_Nil getRaceCoordinates_def)

theorem findKey_empty_never_matches_witness:
  "findKey [] CIRCUIT_COORDINATES = None \<and> str_includes ''Monza'' []
   \<and> circuit raceNoCircuit = [] \<and> location raceNoCircuit = []
   \<and> getRaceCoordinates raceNoCircuit = Coords (34.843056, 136.540556)"
proof -
  have c: "circuit raceNoCircuit = [] \<and> location raceNoCircuit = []"
    by (simp add: raceNoCircuit_def)
  have p: "getProperty COUNTRY_COORDINATES (country raceNoCircuit) = None"
    by (simp add: raceNoCircuit_def getProperty_def COUNTRY_COORDINATES_def objectPrototypeKeys_def)
  have k: "findKey (country raceNoCircuit) COUNTRY_COORDINATES = Some (34.843056, 136.540556)"
    by (simp add: raceNoCircuit_def findKey_def eval_lower COUNTRY_COORDINATES_def)
  from findKey_empty_never_matches [of CIRCUIT_COORDINATES "''Monza''" raceNoCircuit] c p k
  show ?thesis by simp
qed

lemma getProperty_own_None:
  assumes "\<not> matchesExactly s mapping"
  shows "map_of mapping s = None"
proof (cases "map_of mapping s")
  case None
  then show ?thesis .
next
  case (Some c)
  then have "(s, c) \<in> set mapping" by (rule map_of_SomeD)
  then have "toLowerCase s \<in> set (lowerKeys mapping)" by (rule lowerKeys_mem)
  with assms show ?thesis by (simp add: matchesExactly_def)
qed

lemma default_if_no_match:
  assumes "\<not> matchesExactly (circuit race) CIRCUIT_COORDINATES"
    and "\<not> matchesPartially (circuit race) CIRCUIT_COORDINATES"
    and "\<not> matchesExactly (location race) CIRCUIT_COORDINATES"
    and "\<not> matchesPartially (location race) CIRCUIT_COORDINATES"
    and "\<not> matchesExactly (country race) COUNTRY_COORDINATES"
    and "\<not> matchesPartially (country race) COUNTRY_COORDINATES"
    and "country race \<notin> set objectPrototypeKeys"
  shows "getRaceCoordinates race = Coords (20, 0)"
proof -
  have "findKey (circuit race) CIRCUIT_COORDINATES = None"
    "findKey (location race) CIRCUIT_COORDINATES = None"
    "findKey (country race) COUNTRY_COORDINATES = None"
    using assms by (simp_all add: findKey_None_iff)
  moreover have "getProperty COUNTRY_COORDINATES (country race) = None"
    using assms(5,7) by (simp add: getProperty_def getProperty_own_None)
  ultimately show ?thesis by (simp add: getRaceCoordinates_def)
qed

lemma getProperty_Some_Coords:
  assumes "key \<notin> set objectPrototypeKeys" and "getProperty obj key = Some v"
  shows "\<exists>c. v = Coords c \<and> c \<in> snd ` set obj"
proof (cases "map_of obj key")
  case None
  with assms show ?thesis by (simp add: getProperty_def)
next
  case (Some c)
  then have "(key, c) \<in> set obj" by (rule map_of_SomeD)
  then have "c \<in> snd ` set obj" by (rule snd_mem)
  moreover from Some assms(2) have "v = Coords c" by (simp add: getProperty_def)
  ultimately show ?thesis by blast
qed

lemma coordinates_if_not_inherited:
  assumes "country race \<notin> set objectPrototypeKeys"
  shows "\<exists>c. getRaceCoordinates race = Coords c
           \<and> c \<in> snd ` set CIRCUIT_COORDINATES \<union> snd ` set COUNTRY_COORDINATES \<union> {(20, 0)}"
proof (cases "findKey (circuit race) CIRCUIT_COORDINATES")
  case (Some c)
  then show ?thesis using findKey_Some_mem [OF Some] by (simp add: getRaceCoordinates_def)
next
  case cNone: None
  show ?thesis
  proof (cases "findKey (location race) CIRCUIT_COORDINATES")
    case (Some c)
    then show ?thesis using cNone findKey_Some_mem [OF Some] by (simp add: getRaceCoordinates_def)
  next
    case lNone: None
    show ?thesis
    proof (cases "getProperty COUNTRY_COORDINATES (country race)")
      case (Some v)
      then obtain c where "v = Coords c" "c \<in> snd ` set COUNTRY_COORDINATES"
        using getProperty_Some_Coords [OF assms] by blast
      with Some cNone lNone show ?thesis by (simp add: getRaceCoordinates_def)
    next
      case pNone: None
      show ?thesis
      proof (cases "findKey (country race) COUNTRY_COORDINATES")
        case (Some c)
        then show ?thesis using cNone lNone pNone findKey_Some_mem [OF Some]
          by (simp add: getRaceCoordinates_def)
      next
        case None
        then show ?thesis using cNone lNone pNone by (simp add: getRaceCoordinates_def)
      qed
    qed
  qed
qed

text \<open>
  C1. \<open>getRaceCoordinates\<close> is to return a pair of numbers for every race. For a race
  without circuit name and location whose country is \<^verbatim>\<open>constructor\<close> the property
  read \<^verbatim>\<open>COUNTRY_COORDINATES[race.country]\<close> finds the function that every object
  inherits under that name, and the function is what \<open>getRaceCoordinates\<close> returns. By
  \<open>coordinates_if_not_inherited\<close> the result is a pair of the tables or the default
  for every country that is no inherited property name.
\<close>

theorem getRaceCoordinates_inherited_property:
  "getRaceCoordinates
     \<lparr>raceId = 1, label = ''Round 1'', name = ''Grand Prix'',
      circuit = [], location = [], country = ''constructor'',
      round_no = 1, date = ''2025-03-16'', year = 2025\<rparr>
   = Inherited ''constructor''"
  by (simp add: getRaceCoordinates_def findKey_Nil getProperty_def
        COUNTRY_COORDINATES_def objectPrototypeKeys_def)

lemma xyz_circuit:
  "\<not> matchesExactly ''xyz'' CIRCUIT_COORDINATES \<and> \<not> matchesPartially ''xyz'' CIRCUIT_COORDINATES"
  by (simp add: matchesExactly_def matchesPartially_def lowerKeys_def eval_lower
        CIRCUIT_COORDINATES_def)

lemma toString_country:
  "\<not> matchesExactly ''toString'' COUNTRY_COORDINATES
   \<and> \<not> matchesPartially ''toString'' COUNTRY_COORDINATES"
  by (simp add: matchesExactly_def matchesPartially_def lowerKeys_def eval_lower
        COUNTRY_COORDINATES_def)

text \<open>
  C8. A race whose circuit name and location match no key of the circuit table and
  whose country matches no key of the country table, exactly or partially, is to get
  the default coordinate (20, 0). The race below matches nothing, and gets the inherited
  function \<^verbatim>\<open>toString\<close> instead. By \<open>default_if_no_match\<close> the default is returned
  for every country that is no inherited property name.
\<close>

theorem default_fallback_inherited_property:
  "\<not> matchesExactly ''xyz'' CIRCUIT_COORDINATES \<and> \<not> matchesPartially ''xyz'' CIRCUIT_COORDINATES
   \<and> \<not> matchesExactly ''toString'' COUNTRY_COORDINATES
   \<and> \<not> matchesPartially ''toString'' COUNTRY_COORDINATES
   \<and> getRaceCoordinates
        \<lparr>raceId = 1, label = ''Round 1'', name = ''Grand Prix'',
         circuit = ''xyz'', location = ''xyz'', country = ''toString'',
         round_no = 1, date = ''2025-03-16'', year = 2025\<rparr>
       = Inherited ''toString''
   \<and> Inherited ''toString'' \<noteq> Coords (20, 0)"
proof -
  have "findKey ''xyz'' CIRCUIT_COORDINATES = None"
    using xyz_circuit by (simp add: findKey_None_iff)
  moreover have "getProperty COUNTRY_COORDINATES ''toString'' = Some (Inherited ''toString'')"
    using getProperty_own_None [of "''toString''" COUNTRY_COORDINATES] toString_country
    by (simp add: getProperty_def objectPrototypeKeys_def)
  ultimately show ?thesis
    using xyz_circuit toString_country by (simp add: getRaceCoordinates_def)
qed

end
